theory Spec2Isabelle
  imports Main "HOL-Library.Char_ord" "HOL-Library.List_Lexorder"
begin

section \<open>Data model\<close>

text \<open>
  The appointment objects of \<^verbatim>\<open>src/EMR_Frontend_Assignment.jsx\<close>. Every field is a
  JavaScript string except \<open>duration\<close>, a number (the form passes it through
  \<^verbatim>\<open>parseInt\<close>, so it is an integer). The status is a free string in the code:
  nothing restricts it to the five values the mock data uses. The field \<^verbatim>\<open>id\<close> is
  named \<open>apt_id\<close> here.
\<close>

record appointment =
  apt_id :: string
  patientName :: string
  date :: string
  time :: string
  duration :: int
  doctorName :: string
  status :: string
  mode :: string

text \<open>The module-level array \<^verbatim>\<open>mockAppointments\<close>, passed explicitly.\<close>

type_synonym store = "appointment list"

text \<open>
  The object handed to \<^verbatim>\<open>createAppointment\<close>: the six required keys and the optional
  \<^verbatim>\<open>status\<close>. \<open>None\<close> is a key that is absent (\<^verbatim>\<open>undefined\<close>); for the duration it
  also stands for \<^verbatim>\<open>NaN\<close>, which \<^verbatim>\<open>parseInt\<close> returns on a non-numeric input and which
  the code treats the same way. The model stops at these seven keys: the object spread
  of the code would copy any further key of the payload into the record, an \<^verbatim>\<open>id\<close> key
  even over the generated id.
\<close>

record payload =
  p_patientName :: "string option"
  p_date :: "string option"
  p_time :: "string option"
  p_duration :: "int option"
  p_doctorName :: "string option"
  p_mode :: "string option"
  p_status :: "string option"

text \<open>
  The three \<^verbatim>\<open>throw new Error(...)\<close> of the service, by the message they carry:
  \<^verbatim>\<open>Missing required field: ${field}\<close>, \<^verbatim>\<open>Time conflict with appointment at ${apt.time}\<close>
  and \<^verbatim>\<open>Appointment not found\<close>.
\<close>

datatype error = MissingField string | TimeConflict string | NotFound

section \<open>JavaScript primitives the service relies on\<close>

subsection \<open>Truthiness\<close>

text \<open>\<^verbatim>\<open>!v\<close> for a string-valued key: absent or the empty string.\<close>

definition falsy_str :: "string option \<Rightarrow> bool" where
  "falsy_str v = (case v of None \<Rightarrow> True | Some s \<Rightarrow> s = [])"

text \<open>\<^verbatim>\<open>!v\<close> for a number-valued key: absent, \<^verbatim>\<open>NaN\<close> or zero.\<close>

definition falsy_num :: "int option \<Rightarrow> bool" where
  "falsy_num v = (case v of None \<Rightarrow> True | Some n \<Rightarrow> n = 0)"

text \<open>Reading a key that the required-field loop has shown to be present.\<close>

definition str_of :: "string option \<Rightarrow> string" where
  "str_of v = (case v of None \<Rightarrow> [] | Some s \<Rightarrow> s)"

definition num_of :: "int option \<Rightarrow> int" where
  "num_of v = (case v of None \<Rightarrow> 0 | Some n \<Rightarrow> n)"

subsection \<open>Dates\<close>

text \<open>
  A \<^verbatim>\<open>Date\<close> object is its time value in milliseconds, or \<open>None\<close> for an Invalid Date
  (time value \<^verbatim>\<open>NaN\<close>). \<open>timeClip\<close> is the range check every \<^verbatim>\<open>Date\<close> constructor
  applies: a time value beyond 8.64e15 ms on either side of the epoch is invalid.
\<close>

definition timeClip :: "int \<Rightarrow> int option" where
  "timeClip t = (if \<bar>t\<bar> \<le> 8640000000000000 then Some t else None)"

definition digit_val :: "char \<Rightarrow> int option" where
  "digit_val c =
     (let n = (of_char c :: nat) in if 48 \<le> n \<and> n \<le> 57 then Some (int n - 48) else None)"

definition num2 :: "char \<Rightarrow> char \<Rightarrow> int option" where
  "num2 a b =
     (case (digit_val a, digit_val b) of
        (Some x, Some y) \<Rightarrow> Some (10 * x + y)
      | _ \<Rightarrow> None)"

definition num4 :: "char \<Rightarrow> char \<Rightarrow> char \<Rightarrow> char \<Rightarrow> int option" where
  "num4 a b c d =
     (case (num2 a b, num2 c d) of
        (Some x, Some y) \<Rightarrow> Some (100 * x + y)
      | _ \<Rightarrow> None)"

definition leap_year :: "int \<Rightarrow> bool" where
  "leap_year y = (y mod 4 = 0 \<and> (y mod 100 \<noteq> 0 \<or> y mod 400 = 0))"

definition days_in_month :: "int \<Rightarrow> int \<Rightarrow> int" where
  "days_in_month y m =
     (if m = 2 then (if leap_year y then 29 else 28)
      else if m = 4 \<or> m = 6 \<or> m = 9 \<or> m = 11 then 30 else 31)"

text \<open>Days from 1970-01-01 to the given day of the proleptic Gregorian calendar.\<close>

definition days_from_civil :: "int \<Rightarrow> int \<Rightarrow> int \<Rightarrow> int" where
  "days_from_civil y m d =
     (let y' = (if m \<le> 2 then y - 1 else y);
          era = y' div 400;
          yoe = y' - era * 400;
          doy = (153 * (if 2 < m then m - 3 else m + 9) + 2) div 5 + d - 1;
          doe = yoe * 365 + yoe div 4 - yoe div 100 + doy
      in era * 146097 + doe - 719468)"

definition make_time :: "int \<Rightarrow> int \<Rightarrow> int \<Rightarrow> int \<Rightarrow> int \<Rightarrow> int option" where
  "make_time y m d h mi =
     (if 1 \<le> m \<and> m \<le> 12 \<and> 1 \<le> d \<and> d \<le> days_in_month y m \<and> h \<le> 23 \<and> mi \<le> 59
      then timeClip (((days_from_civil y m d * 24 + h) * 60 + mi) * 60000)
      else None)"

text \<open>
  \<^verbatim>\<open>new Date(s)\<close> for the strings the service builds, \<^verbatim>\<open>`${date}T${time}`\<close>. The model
  reads the date-time form \<^verbatim>\<open>YYYY-MM-DDTHH:mm\<close> that the form's date and time inputs
  produce, as local wall-clock time with the zone offset taken as zero (a fixed offset
  shifts every time value alike and so cancels in every comparison the service makes).
  Any other string is an Invalid Date; engines accept further formats, and the
  theorems below that quantify over all strings use the parser only through
  \<open>newDate\<close>, never through its format.
\<close>

fun newDate :: "string \<Rightarrow> int option" where
  "newDate [y1, y2, y3, y4, s1, m1, m2, s2, d1, d2, t, h1, h2, c, i1, i2] =
     (if s1 = CHR ''-'' \<and> s2 = CHR ''-'' \<and> t = CHR ''T'' \<and> c = CHR '':''
      then (case (num4 y1 y2 y3 y4, num2 m1 m2, num2 d1 d2, num2 h1 h2, num2 i1 i2) of
              (Some y, Some m, Some d, Some h, Some mi) \<Rightarrow> make_time y m d h mi
            | _ \<Rightarrow> None)
      else None)"
| "newDate _ = None"

text \<open>\<^verbatim>\<open>new Date(d.getTime() + minutes * 60000)\<close>.\<close>

definition addMinutes :: "int option \<Rightarrow> int \<Rightarrow> int option" where
  "addMinutes d minutes =
     (case d of None \<Rightarrow> None | Some t \<Rightarrow> timeClip (t + minutes * 60000))"

text \<open>\<^verbatim>\<open>a < b\<close> and \<^verbatim>\<open>a > b\<close> on \<^verbatim>\<open>Date\<close> objects: both are false when either is invalid.\<close>

definition date_lt :: "int option \<Rightarrow> int option \<Rightarrow> bool" where
  "date_lt a b = (case (a, b) of (Some x, Some y) \<Rightarrow> x < y | _ \<Rightarrow> False)"

definition date_gt :: "int option \<Rightarrow> int option \<Rightarrow> bool" where
  "date_gt a b = (case (a, b) of (Some x, Some y) \<Rightarrow> y < x | _ \<Rightarrow> False)"

subsection \<open>Numbers in template strings\<close>

definition digit_char :: "nat \<Rightarrow> char" where
  "digit_char n = ''0123456789'' ! n"

text \<open>
  The decimal numeral \<^verbatim>\<open>`${n}`\<close> of a non-negative integer (clock readings are far
  below 1e21, where JavaScript switches to exponent notation).
\<close>

fun decimal :: "nat \<Rightarrow> string" where
  "decimal n = (if n < 10 then [digit_char n] else decimal (n div 10) @ [digit_char (n mod 10)])"

declare decimal.simps [simp del]

subsection \<open>Array search\<close>

text \<open>\<^verbatim>\<open>Array.prototype.findIndex\<close>; \<open>None\<close> is the result \<^verbatim>\<open>-1\<close>.\<close>

fun findIndex :: "('a \<Rightarrow> bool) \<Rightarrow> 'a list \<Rightarrow> nat option" where
  "findIndex P [] = None"
| "findIndex P (x # xs) =
     (if P x then Some 0 else map_option Suc (findIndex P xs))"

section \<open>The appointment service\<close>

subsection \<open>createAppointment\<close>

definition required :: "string list" where
  "required = [''patientName'', ''date'', ''time'', ''duration'', ''doctorName'', ''mode'']"

text \<open>\<^verbatim>\<open>!payload[field]\<close>; a key the payload type does not have is absent.\<close>

definition field_falsy :: "payload \<Rightarrow> string \<Rightarrow> bool" where
  "field_falsy p field =
     (if field = ''patientName'' then falsy_str (p_patientName p)
      else if field = ''date'' then falsy_str (p_date p)
      else if field = ''time'' then falsy_str (p_time p)
      else if field = ''duration'' then falsy_num (p_duration p)
      else if field = ''doctorName'' then falsy_str (p_doctorName p)
      else if field = ''mode'' then falsy_str (p_mode p)
      else if field = ''status'' then falsy_str (p_status p)
      else True)"

text \<open>The loop \<^verbatim>\<open>for (let field of required)\<close>: the first field that is falsy, if any.\<close>

fun check_required :: "payload \<Rightarrow> string list \<Rightarrow> string option" where
  "check_required p [] = None"
| "check_required p (field # rest) =
     (if field_falsy p field then Some field else check_required p rest)"

text \<open>The predicate of \<^verbatim>\<open>mockAppointments.filter(...)\<close> that selects the candidates.\<close>

definition same_slot_owner :: "payload \<Rightarrow> appointment \<Rightarrow> bool" where
  "same_slot_owner p apt =
     (doctorName apt = str_of (p_doctorName p) \<and>
      date apt = str_of (p_date p) \<and>
      status apt \<noteq> ''Cancelled'' \<and>
      status apt \<noteq> ''Completed'')"

text \<open>The body of the loop over the candidates: the test that throws.\<close>

definition time_clash :: "payload \<Rightarrow> appointment \<Rightarrow> bool" where
  "time_clash p apt =
     (let existingStart = newDate (date apt @ ''T'' @ time apt);
          existingEnd = addMinutes existingStart (duration apt);
          newStart = newDate (str_of (p_date p) @ ''T'' @ str_of (p_time p));
          newEnd = addMinutes newStart (num_of (p_duration p))
      in date_lt newStart existingEnd \<and> date_gt newEnd existingStart)"

text \<open>\<^verbatim>\<open>payload.status || 'Scheduled'\<close>.\<close>

definition status_or_default :: "string option \<Rightarrow> string" where
  "status_or_default v = (if falsy_str v then ''Scheduled'' else str_of v)"

text \<open>
  The object literal \<^verbatim>\<open>{ id: `apt-${Date.now()}`, ...payload, status: ... }\<close>; \<open>now\<close> is
  the value of \<^verbatim>\<open>Date.now()\<close>.
\<close>

definition new_appointment :: "nat \<Rightarrow> payload \<Rightarrow> appointment" where
  "new_appointment now p =
     \<lparr> apt_id = ''apt-'' @ decimal now,
       patientName = str_of (p_patientName p),
       date = str_of (p_date p),
       time = str_of (p_time p),
       duration = num_of (p_duration p),
       doctorName = str_of (p_doctorName p),
       status = status_or_default (p_status p),
       mode = str_of (p_mode p) \<rparr>"

text \<open>
  The result is what the call returns or throws, paired with the array afterwards.
\<close>

definition createAppointment :: "nat \<Rightarrow> payload \<Rightarrow> store \<Rightarrow> (error + appointment) \<times> store" where
  "createAppointment now p st =
     (case check_required p required of
        Some field \<Rightarrow> (Inl (MissingField field), st)
      | None \<Rightarrow>
          (case find (time_clash p) (filter (same_slot_owner p) st) of
             Some apt \<Rightarrow> (Inl (TimeConflict (time apt)), st)
           | None \<Rightarrow> (Inr (new_appointment now p), st @ [new_appointment now p])))"

subsection \<open>updateAppointmentStatus\<close>

text \<open>
  \<^verbatim>\<open>find\<close> returns the first object with the id, and the assignment writes to that
  object in the array.
\<close>

definition updateAppointmentStatus :: "string \<Rightarrow> string \<Rightarrow> store \<Rightarrow> (error + appointment) \<times> store" where
  "updateAppointmentStatus i newStatus st =
     (case findIndex (\<lambda>a. apt_id a = i) st of
        None \<Rightarrow> (Inl NotFound, st)
      | Some k \<Rightarrow> (Inr ((st ! k)\<lparr>status := newStatus\<rparr>), st[k := (st ! k)\<lparr>status := newStatus\<rparr>]))"

subsection \<open>deleteAppointment\<close>

text \<open>\<^verbatim>\<open>splice(index, 1)\<close> removes the element at the index found.\<close>

definition deleteAppointment :: "string \<Rightarrow> store \<Rightarrow> bool \<times> store" where
  "deleteAppointment i st =
     (case findIndex (\<lambda>a. apt_id a = i) st of
        None \<Rightarrow> (False, st)
      | Some k \<Rightarrow> (True, take k st @ drop (Suc k) st))"

subsection \<open>getAppointments\<close>

text \<open>The optional \<^verbatim>\<open>filters\<close> object; \<open>None\<close> is an absent key.\<close>

record filters =
  f_date :: "string option"
  f_status :: "string option"
  f_doctorName :: "string option"

text \<open>\<^verbatim>\<open>String.prototype.toLowerCase\<close> on the ASCII letters.\<close>

definition lower_char :: "char \<Rightarrow> char" where
  "lower_char c =
     (let n = (of_char c :: nat) in if 65 \<le> n \<and> n \<le> 90 then char_of (n + 32) else c)"

definition toLowerCase :: "string \<Rightarrow> string" where
  "toLowerCase s = map lower_char s"

fun startsWith :: "string \<Rightarrow> string \<Rightarrow> bool" where
  "startsWith s [] = True"
| "startsWith [] (c # cs) = False"
| "startsWith (x # xs) (c # cs) = (x = c \<and> startsWith xs cs)"

text \<open>\<^verbatim>\<open>s.includes(t)\<close>: \<open>t\<close> occurs in \<open>s\<close> as a contiguous substring.\<close>

fun includes_str :: "string \<Rightarrow> string \<Rightarrow> bool" where
  "includes_str [] t = (t = [])"
| "includes_str (x # xs) t = (startsWith (x # xs) t \<or> includes_str xs t)"

text \<open>
  \<^verbatim>\<open>a.localeCompare(b)\<close>, as a sign. The model compares code units, which is what the
  collation gives on the strings the service stores: fixed-width numerals with the
  separators \<^verbatim>\<open>-\<close> and \<^verbatim>\<open>:\<close> in fixed places.
\<close>

definition localeCompare :: "string \<Rightarrow> string \<Rightarrow> int" where
  "localeCompare a b = (if a < b then - 1 else if a = b then 0 else 1)"

text \<open>The comparator handed to \<^verbatim>\<open>sort\<close>.\<close>

definition compare_appointments :: "appointment \<Rightarrow> appointment \<Rightarrow> int" where
  "compare_appointments a b =
     (if date a = date b then localeCompare (time a) (time b)
      else localeCompare (date a) (date b))"

text \<open>
  \<^verbatim>\<open>Array.prototype.sort(cmp)\<close> is a stable sort; on a consistent comparator every
  stable sort returns the same array, so a stable insertion sort stands for it.
\<close>

fun insert_by :: "('a \<Rightarrow> 'a \<Rightarrow> int) \<Rightarrow> 'a \<Rightarrow> 'a list \<Rightarrow> 'a list" where
  "insert_by cmp x [] = [x]"
| "insert_by cmp x (y # ys) =
     (if cmp x y \<le> 0 then x # y # ys else y # insert_by cmp x ys)"

fun sort_by :: "('a \<Rightarrow> 'a \<Rightarrow> int) \<Rightarrow> 'a list \<Rightarrow> 'a list" where
  "sort_by cmp [] = []"
| "sort_by cmp (x # xs) = insert_by cmp x (sort_by cmp xs)"

text \<open>
  The function works on a copy of the array (\<^verbatim>\<open>[...mockAppointments]\<close>), so the
  store is not an output.
\<close>

definition getAppointments :: "filters \<Rightarrow> store \<Rightarrow> appointment list" where
  "getAppointments f st =
     (let a1 = (if falsy_str (f_date f) then st
                else filter (\<lambda>apt. date apt = str_of (f_date f)) st);
          a2 = (if falsy_str (f_status f) then a1
                else filter (\<lambda>apt. status apt = str_of (f_status f)) a1);
          a3 = (if falsy_str (f_doctorName f) then a2
                else filter (\<lambda>apt. includes_str (toLowerCase (doctorName apt))
                                     (toLowerCase (str_of (f_doctorName f)))) a2)
      in sort_by compare_appointments a3)"

subsection \<open>getFilteredAppointments\<close>

text \<open>
  The tab refinement of the view. \<open>today\<close> is the string the code computes from the
  clock (\<^verbatim>\<open>new Date().toISOString().split('T')[0]\<close>); \<open>appointments\<close> is the list that
  \<open>getAppointments\<close> returned. \<^verbatim>\<open>>=\<close> and \<^verbatim>\<open><\<close> on strings compare code units
  lexicographically, as the order on \<open>string\<close> does.
\<close>

definition getFilteredAppointments :: "string \<Rightarrow> string \<Rightarrow> appointment list \<Rightarrow> appointment list" where
  "getFilteredAppointments selectedTab today appointments =
     (if selectedTab = ''today'' then filter (\<lambda>apt. date apt = today) appointments
      else if selectedTab = ''upcoming'' then
        filter (\<lambda>apt. date apt \<ge> today \<and>
                       status apt \<in> set [''Scheduled'', ''Upcoming'', ''Confirmed'']) appointments
      else if selectedTab = ''past'' then
        filter (\<lambda>apt. date apt < today \<or> status apt = ''Completed'') appointments
      else appointments)"

text \<open>The query of the specification: the base filter and sort, then the tab.\<close>

definition Query :: "filters \<Rightarrow> string \<Rightarrow> string \<Rightarrow> store \<Rightarrow> appointment list" where
  "Query f tab referenceDate st = getFilteredAppointments tab referenceDate (getAppointments f st)"

section \<open>Notions of the specification\<close>

text \<open>The interval \<open>[date+time, date+time+duration)\<close> of an appointment.\<close>

definition start_of :: "appointment \<Rightarrow> int option" where
  "start_of a = newDate (date a @ ''T'' @ time a)"

definition end_of :: "appointment \<Rightarrow> int option" where
  "end_of a = addMinutes (start_of a) (duration a)"

text \<open>
  Half-open interval intersection, \<open>a.start < b.end AND b.start < a.end\<close>; an
  appointment whose date or time does not parse has no interval and overlaps nothing.
\<close>

definition overlaps :: "appointment \<Rightarrow> appointment \<Rightarrow> bool" where
  "overlaps a b = (date_lt (start_of a) (end_of b) \<and> date_lt (start_of b) (end_of a))"

text \<open>The active set, with the capitalisation the code uses for its status strings.\<close>

definition active_status :: "string \<Rightarrow> bool" where
  "active_status s = (s = ''Scheduled'' \<or> s = ''Upcoming'' \<or> s = ''Confirmed'')"

definition double_booked :: "appointment \<Rightarrow> appointment \<Rightarrow> bool" where
  "double_booked a b =
     (doctorName a = doctorName b \<and> active_status (status a) \<and> active_status (status b) \<and>
      overlaps a b)"

text \<open>
  No two appointments of the store are double-booked (invariant I3). \<open>sorted_wrt P\<close>
  holds when \<open>P\<close> relates every element to every later one; \<open>double_booked\<close> is
  symmetric, so that covers every pair.
\<close>

definition no_double_booking :: "store \<Rightarrow> bool" where
  "no_double_booking st = sorted_wrt (\<lambda>a b. \<not> double_booked a b) st"

text \<open>The same, for pairs of appointments stored under the same date string.\<close>

definition no_same_date_double_booking :: "store \<Rightarrow> bool" where
  "no_same_date_double_booking st =
     sorted_wrt (\<lambda>a b. \<not> (date a = date b \<and> double_booked a b)) st"

text \<open>
  A well-formed request in the sense of the specification: names non-empty, date and
  time parsing, a positive duration, one of the three modes the form offers.
\<close>

definition valid_request :: "payload \<Rightarrow> bool" where
  "valid_request p =
     (\<not> falsy_str (p_patientName p) \<and>
      newDate (str_of (p_date p) @ ''T'' @ str_of (p_time p)) \<noteq> None \<and>
      (case p_duration p of None \<Rightarrow> False | Some n \<Rightarrow> 0 < n) \<and>
      \<not> falsy_str (p_doctorName p) \<and>
      p_mode p \<in> set [Some ''In-person'', Some ''Video'', Some ''Phone''])"

text \<open>
  An existing appointment \<open>a\<close> that blocks a candidate \<open>c\<close>, as the conflict check
  of the code decides it: same doctor, same date string, neither cancelled nor
  completed, overlapping intervals.
\<close>

definition blocks :: "appointment \<Rightarrow> appointment \<Rightarrow> bool" where
  "blocks a c =
     (doctorName a = doctorName c \<and> date a = date c \<and>
      status a \<noteq> ''Cancelled'' \<and> status a \<noteq> ''Completed'' \<and> overlaps a c)"

text \<open>The order of the listing: by date, and by time within a date.\<close>

definition date_time_le :: "appointment \<Rightarrow> appointment \<Rightarrow> bool" where
  "date_time_le a b = (date a < date b \<or> (date a = date b \<and> time a \<le> time b))"

text \<open>
  The ISO forms \<^verbatim>\<open>YYYY-MM-DD\<close> and \<^verbatim>\<open>HH:MM\<close>: digits in fixed places around the
  separators. These are the strings the specification's ordering speaks of.
\<close>

definition is_digit :: "char \<Rightarrow> bool" where
  "is_digit c = (digit_val c \<noteq> None)"

fun iso_date :: "string \<Rightarrow> bool" where
  "iso_date [y1, y2, y3, y4, s1, m1, m2, s2, d1, d2] =
     (s1 = CHR ''-'' \<and> s2 = CHR ''-'' \<and> list_all is_digit [y1, y2, y3, y4, m1, m2, d1, d2])"
| "iso_date _ = False"

fun iso_time :: "string \<Rightarrow> bool" where
  "iso_time [h1, h2, c, i1, i2] = (c = CHR '':'' \<and> list_all is_digit [h1, h2, i1, i2])"
| "iso_time _ = False"

definition iso_formatted :: "store \<Rightarrow> bool" where
  "iso_formatted st = list_all (\<lambda>a. iso_date (date a) \<and> iso_time (time a)) st"

subsection \<open>Sequences of calls\<close>

datatype operation =
  Create nat payload
| UpdateStatus string string
| Delete string

text \<open>The store after a call that succeeds; \<open>None\<close> when the call fails.\<close>

fun apply_operation :: "operation \<Rightarrow> store \<Rightarrow> store option" where
  "apply_operation (Create now p) st =
     (case createAppointment now p st of (Inr a, st') \<Rightarrow> Some st' | (Inl e, st') \<Rightarrow> None)"
| "apply_operation (UpdateStatus i s) st =
     (case updateAppointmentStatus i s st of (Inr a, st') \<Rightarrow> Some st' | (Inl e, st') \<Rightarrow> None)"
| "apply_operation (Delete i) st =
     (case deleteAppointment i st of (True, st') \<Rightarrow> Some st' | (False, st') \<Rightarrow> None)"

text \<open>A status update that gives an active status to an appointment that had none.\<close>

fun reactivates :: "operation \<Rightarrow> store \<Rightarrow> bool" where
  "reactivates (UpdateStatus i s) st =
     (case findIndex (\<lambda>a. apt_id a = i) st of
        None \<Rightarrow> False
      | Some k \<Rightarrow> active_status s \<and> \<not> active_status (status (st ! k)))"
| "reactivates (Create now p) st = False"
| "reactivates (Delete i) st = False"

text \<open>
  Running a sequence of calls, all of which succeed and none of which reactivates an
  appointment; \<open>run\<close> is the same without the second condition.
\<close>

fun run :: "operation list \<Rightarrow> store \<Rightarrow> store option" where
  "run [] st = Some st"
| "run (op # ops) st =
     (case apply_operation op st of None \<Rightarrow> None | Some st' \<Rightarrow> run ops st')"

fun run_no_reactivation :: "operation list \<Rightarrow> store \<Rightarrow> store option" where
  "run_no_reactivation [] st = Some st"
| "run_no_reactivation (op # ops) st =
     (if reactivates op st then None
      else case apply_operation op st of None \<Rightarrow> None | Some st' \<Rightarrow> run_no_reactivation ops st')"

section \<open>The initial data\<close>

text \<open>The ten records the array \<^verbatim>\<open>mockAppointments\<close> starts with.\<close>

definition apt_001 :: appointment where
  "apt_001 =
     \<lparr> apt_id = ''apt-001'', patientName = ''John Smith'', date = ''2024-12-29'', time = ''09:00'',
       duration = 30, doctorName = ''Dr. Sarah Johnson'', status = ''Confirmed'', mode = ''In-person'' \<rparr>"

definition apt_002 :: appointment where
  "apt_002 =
     \<lparr> apt_id = ''apt-002'', patientName = ''Emma Davis'', date = ''2024-12-29'', time = ''10:00'',
       duration = 45, doctorName = ''Dr. Michael Chen'', status = ''Scheduled'', mode = ''Video'' \<rparr>"

definition apt_003 :: appointment where
  "apt_003 =
     \<lparr> apt_id = ''apt-003'', patientName = ''Robert Wilson'', date = ''2024-12-29'', time = ''11:30'',
       duration = 30, doctorName = ''Dr. Sarah Johnson'', status = ''Upcoming'', mode = ''In-person'' \<rparr>"

definition apt_004 :: appointment where
  "apt_004 =
     \<lparr> apt_id = ''apt-004'', patientName = ''Maria Garcia'', date = ''2024-12-30'', time = ''09:30'',
       duration = 60, doctorName = ''Dr. Emily Brown'', status = ''Confirmed'', mode = ''Phone'' \<rparr>"

definition apt_005 :: appointment where
  "apt_005 =
     \<lparr> apt_id = ''apt-005'', patientName = ''James Anderson'', date = ''2024-12-30'', time = ''14:00'',
       duration = 30, doctorName = ''Dr. Michael Chen'', status = ''Scheduled'', mode = ''Video'' \<rparr>"

definition apt_006 :: appointment where
  "apt_006 =
     \<lparr> apt_id = ''apt-006'', patientName = ''Lisa Martinez'', date = ''2024-12-28'', time = ''10:00'',
       duration = 45, doctorName = ''Dr. Sarah Johnson'', status = ''Completed'', mode = ''In-person'' \<rparr>"

definition apt_007 :: appointment where
  "apt_007 =
     \<lparr> apt_id = ''apt-007'', patientName = ''David Lee'', date = ''2024-12-28'', time = ''15:30'',
       duration = 30, doctorName = ''Dr. Emily Brown'', status = ''Completed'', mode = ''Video'' \<rparr>"

definition apt_008 :: appointment where
  "apt_008 =
     \<lparr> apt_id = ''apt-008'', patientName = ''Sarah Taylor'', date = ''2024-12-27'', time = ''11:00'',
       duration = 30, doctorName = ''Dr. Michael Chen'', status = ''Cancelled'', mode = ''In-person'' \<rparr>"

definition apt_009 :: appointment where
  "apt_009 =
     \<lparr> apt_id = ''apt-009'', patientName = ''Kevin White'', date = ''2025-01-02'', time = ''09:00'',
       duration = 45, doctorName = ''Dr. Sarah Johnson'', status = ''Upcoming'', mode = ''In-person'' \<rparr>"

definition apt_010 :: appointment where
  "apt_010 =
     \<lparr> apt_id = ''apt-010'', patientName = ''Jennifer Brown'', date = ''2025-01-02'', time = ''13:00'',
       duration = 30, doctorName = ''Dr. Emily Brown'', status = ''Scheduled'', mode = ''Phone'' \<rparr>"

definition mockAppointments :: store where
  "mockAppointments =
     [apt_001, apt_002, apt_003, apt_004, apt_005, apt_006, apt_007, apt_008, apt_009, apt_010]"

section \<open>Example requests\<close>

text \<open>
  The payload the form submits, \<^verbatim>\<open>{ ...formData, duration: parseInt(formData.duration) }\<close>,
  with all six fields filled in and no \<^verbatim>\<open>status\<close> key.
\<close>

definition form_payload :: "string \<Rightarrow> string \<Rightarrow> string \<Rightarrow> int \<Rightarrow> string \<Rightarrow> string \<Rightarrow> payload" where
  "form_payload pn d t n dn m =
     \<lparr> p_patientName = Some pn, p_date = Some d, p_time = Some t, p_duration = Some n,
       p_doctorName = Some dn, p_mode = Some m, p_status = None \<rparr>"

text \<open>Three requests, each ill-formed in one field only.\<close>

definition request_bad_date :: payload where
  "request_bad_date = form_payload ''Ann Lee'' ''tomorrow'' ''09:00'' 30 ''Dr. A'' ''Video''"

definition request_negative_duration :: payload where
  "request_negative_duration = form_payload ''Ann Lee'' ''2024-12-29'' ''09:00'' (- 30) ''Dr. A'' ''Video''"

definition request_unknown_mode :: payload where
  "request_unknown_mode = form_payload ''Ann Lee'' ''2024-12-29'' ''09:00'' 30 ''Dr. A'' ''Hologram''"

text \<open>
  The first two example scenarios of the specification: a 30-minute appointment of
  Dr. A at 09:00, and requests for the same doctor and day at 09:15 and at 09:30.
\<close>

definition morning :: appointment where
  "morning =
     \<lparr> apt_id = ''apt-100'', patientName = ''Ann Lee'', date = ''2024-12-29'', time = ''09:00'',
       duration = 30, doctorName = ''Dr. A'', status = ''Scheduled'', mode = ''Video'' \<rparr>"

definition request_0915 :: payload where
  "request_0915 = form_payload ''Bo Chan'' ''2024-12-29'' ''09:15'' 30 ''Dr. A'' ''Phone''"

definition request_0930 :: payload where
  "request_0930 = form_payload ''Bo Chan'' ''2024-12-29'' ''09:30'' 30 ''Dr. A'' ''Phone''"

text \<open>
  An appointment that runs over midnight, from 23:30 to 00:30, and requests for the
  same doctor on the next day at 00:00 and at 00:15.
\<close>

definition late_evening :: appointment where
  "late_evening =
     \<lparr> apt_id = ''apt-101'', patientName = ''Ann Lee'', date = ''2024-12-29'', time = ''23:30'',
       duration = 60, doctorName = ''Dr. A'', status = ''Scheduled'', mode = ''Video'' \<rparr>"

definition request_midnight :: payload where
  "request_midnight = form_payload ''Bo Chan'' ''2024-12-30'' ''00:00'' 30 ''Dr. A'' ''Phone''"

definition request_0015 :: payload where
  "request_0015 = form_payload ''Cy Diaz'' ''2024-12-30'' ''00:15'' 30 ''Dr. A'' ''Phone''"

text \<open>The 09:00 appointment with a status outside the five of the initial data.\<close>

definition checked_in :: appointment where
  "checked_in = morning\<lparr>status := ''Checked-in''\<rparr>"

text \<open>A request for another doctor.\<close>

definition request_other_doctor :: payload where
  "request_other_doctor = form_payload ''Cy Diaz'' ''2024-12-29'' ''09:00'' 30 ''Dr. B'' ''Video''"

text \<open>A request for the slot from 23:30 to 00:30.\<close>

definition request_2330 :: payload where
  "request_2330 = form_payload ''Ann Lee'' ''2024-12-29'' ''23:30'' 60 ''Dr. A'' ''Video''"

text \<open>No filter at all: \<^verbatim>\<open>getAppointments()\<close>.\<close>

definition no_filters :: filters where
  "no_filters = \<lparr> f_date = None, f_status = None, f_doctorName = None \<rparr>"

text \<open>
  \<open>calmer a' a\<close>: the appointment \<open>a'\<close> has the doctor, date, time and duration of
  \<open>a\<close>, and an active status only if \<open>a\<close> has one.
\<close>

definition calmer :: "appointment \<Rightarrow> appointment \<Rightarrow> bool" where
  "calmer a' a =
     (date a' = date a \<and> time a' = time a \<and> duration a' = duration a \<and>
      doctorName a' = doctorName a \<and>
      (active_status (status a') \<longrightarrow> active_status (status a)))"

section \<open>Auxiliary facts\<close>

lemma findIndex_None_iff: "findIndex P xs = None \<longleftrightarrow> (\<forall>x \<in> set xs. \<not> P x)"
  by (induction xs) auto

lemma findIndex_SomeD:
  "findIndex P xs = Some k \<Longrightarrow> k < length xs \<and> P (xs ! k) \<and> (\<forall>j < k. \<not> P (xs ! j))"
proof (induction xs arbitrary: k)
  case Nil
  then show ?case by simp
next
  case (Cons x xs)
  show ?case
  proof (cases "P x")
    case True
    with Cons.prems show ?thesis by simp
  next
    case False
    with Cons.prems obtain k' where k': "findIndex P xs = Some k'" "k = Suc k'"
      by auto
    from Cons.IH [OF k'(1)] False k'(2) show ?thesis
      by (auto simp: nth_Cons split: nat.splits)
  qed
qed

lemma decimal_small: "n < 10 \<Longrightarrow> decimal n = [digit_char n]"
  by (simp add: decimal.simps)

lemma decimal_large: "10 \<le> n \<Longrightarrow> decimal n = decimal (n div 10) @ [digit_char (n mod 10)]"
  by (subst decimal.simps) simp

lemmas decimal_eval = decimal_small decimal_large digit_char_def

lemma mock_ids:
  "apt_id apt_001 = ''apt-001''" "apt_id apt_002 = ''apt-002''" "apt_id apt_003 = ''apt-003''"
  "apt_id apt_004 = ''apt-004''" "apt_id apt_005 = ''apt-005''" "apt_id apt_006 = ''apt-006''"
  "apt_id apt_007 = ''apt-007''" "apt_id apt_008 = ''apt-008''" "apt_id apt_009 = ''apt-009''"
  "apt_id apt_010 = ''apt-010''"
  by (simp_all add: apt_001_def apt_002_def apt_003_def apt_004_def apt_005_def apt_006_def
      apt_007_def apt_008_def apt_009_def apt_010_def)

section \<open>Frame of a status update\<close>

text \<open>
  Claim C10. A successful \<open>updateAppointmentStatus i s\<close> writes the status field of one
  appointment, the first one of the store whose id is \<open>i\<close>: the record returned is that
  appointment with status \<open>s\<close>, its id, patient, doctor, date, time, duration and mode
  are the old ones, the store keeps its length, and every other position of the store
  holds what it held before.
\<close>

theorem update_status_frame:
  assumes "updateAppointmentStatus i s st = (Inr a, st')"
  shows "\<exists>k < length st.
           apt_id (st ! k) = i \<and> (\<forall>j < k. apt_id (st ! j) \<noteq> i) \<and>
           a = (st ! k)\<lparr>status := s\<rparr> \<and> st' = st[k := a] \<and>
           length st' = length st \<and> (\<forall>j < length st. j \<noteq> k \<longrightarrow> st' ! j = st ! j) \<and>
           st' ! k = a \<and> status a = s \<and>
           apt_id a = apt_id (st ! k) \<and> patientName a = patientName (st ! k) \<and>
           doctorName a = doctorName (st ! k) \<and> date a = date (st ! k) \<and>
           time a = time (st ! k) \<and> duration a = duration (st ! k) \<and> mode a = mode (st ! k)"
proof (cases "findIndex (\<lambda>a. apt_id a = i) st")
  case None
  with assms show ?thesis by (simp add: updateAppointmentStatus_def)
next
  case (Some k)
  from findIndex_SomeD [OF Some]
  have k: "k < length st" "apt_id (st ! k) = i" "\<forall>j < k. apt_id (st ! j) \<noteq> i"
    by auto
  from assms Some have a: "a = (st ! k)\<lparr>status := s\<rparr>" and st': "st' = st[k := a]"
    by (auto simp: updateAppointmentStatus_def)
  show ?thesis
  proof (intro exI [of _ k] conjI)
    show "\<forall>j < length st. j \<noteq> k \<longrightarrow> st' ! j = st ! j" by (simp add: st')
    show "st' ! k = a" using k(1) by (simp add: st')
  qed (use k a st' in simp_all)
qed

lemma update_mock_002:
  "updateAppointmentStatus ''apt-002'' ''Confirmed'' mockAppointments =
     (Inr (apt_002\<lparr>status := ''Confirmed''\<rparr>),
      mockAppointments[1 := apt_002\<lparr>status := ''Confirmed''\<rparr>])"
  by (simp add: updateAppointmentStatus_def mockAppointments_def mock_ids)

theorem update_status_frame_witness:
  "updateAppointmentStatus ''apt-002'' ''Confirmed'' mockAppointments =
     (Inr (apt_002\<lparr>status := ''Confirmed''\<rparr>),
      mockAppointments[1 := apt_002\<lparr>status := ''Confirmed''\<rparr>]) \<and>
   (\<exists>k < length mockAppointments.
      apt_id (mockAppointments ! k) = ''apt-002'' \<and>
      mockAppointments[1 := apt_002\<lparr>status := ''Confirmed''\<rparr>] =
        mockAppointments[k := apt_002\<lparr>status := ''Confirmed''\<rparr>] \<and>
      patientName (apt_002\<lparr>status := ''Confirmed''\<rparr>) = patientName (mockAppointments ! k))"
  using update_status_frame [OF update_mock_002] update_mock_002 by blast

section \<open>Status updates and the transition table\<close>

text \<open>
  Claim C1, as amended. \<open>updateAppointmentStatus i s\<close> fails with \<open>NotFound\<close> when no
  appointment of the store has the id \<open>i\<close>. Otherwise it succeeds, whatever the current
  status and whatever \<open>s\<close> is: it writes \<open>s\<close> into the first appointment with that id (no
  earlier position of the store holds the id) and returns the updated record. The code
  holds no transition table and has no error for a rejected transition. The witness
  takes a store in which two appointments share an id: the first one is updated.
\<close>

theorem update_status_accepts_every_transition:
  "(i \<notin> apt_id ` set st \<longrightarrow> updateAppointmentStatus i s st = (Inl NotFound, st)) \<and>
   (i \<in> apt_id ` set st \<longrightarrow>
      (\<exists>k < length st.
         apt_id (st ! k) = i \<and> (\<forall>j < k. apt_id (st ! j) \<noteq> i) \<and>
         updateAppointmentStatus i s st =
           (Inr ((st ! k)\<lparr>status := s\<rparr>), st[k := (st ! k)\<lparr>status := s\<rparr>])))"
proof (cases "findIndex (\<lambda>a. apt_id a = i) st")
  case None
  then have "i \<notin> apt_id ` set st"
    by (auto simp: findIndex_None_iff)
  with None show ?thesis
    by (simp add: updateAppointmentStatus_def)
next
  case (Some k)
  from findIndex_SomeD [OF Some]
  have k: "k < length st" "apt_id (st ! k) = i" "\<forall>j < k. apt_id (st ! j) \<noteq> i"
    by auto
  then have "i \<in> apt_id ` set st"
    by (metis imageI nth_mem)
  moreover have "updateAppointmentStatus i s st =
      (Inr ((st ! k)\<lparr>status := s\<rparr>), st[k := (st ! k)\<lparr>status := s\<rparr>])"
    using Some by (simp add: updateAppointmentStatus_def)
  ultimately show ?thesis
    using k by blast
qed

lemma shared_id:
  "apt_id (new_appointment 5 request_0930) = ''apt-5''"
  "apt_id (new_appointment 5 request_other_doctor) = ''apt-5''"
  by (simp_all add: new_appointment_def decimal_eval)

theorem update_status_accepts_every_transition_witness:
  "updateAppointmentStatus ''apt-999'' ''Confirmed'' mockAppointments =
     (Inl NotFound, mockAppointments) \<and>
   apt_id (new_appointment 5 request_0930) = ''apt-5'' \<and>
   apt_id (new_appointment 5 request_other_doctor) = ''apt-5'' \<and>
   updateAppointmentStatus ''apt-5'' ''Cancelled''
       [new_appointment 5 request_0930, new_appointment 5 request_other_doctor] =
     (Inr ((new_appointment 5 request_0930)\<lparr>status := ''Cancelled''\<rparr>),
      [(new_appointment 5 request_0930)\<lparr>status := ''Cancelled''\<rparr>,
       new_appointment 5 request_other_doctor])"
proof -
  define a where "a = new_appointment 5 request_0930"
  define b where "b = new_appointment 5 request_other_doctor"
  have ids: "apt_id a = ''apt-5''" "apt_id b = ''apt-5''"
    by (simp_all only: a_def b_def shared_id)
  have "''apt-999'' \<notin> apt_id ` set mockAppointments"
    by (simp add: mockAppointments_def mock_ids)
  with update_status_accepts_every_transition [of "''apt-999''" mockAppointments "''Confirmed''"]
  have absent: "updateAppointmentStatus ''apt-999'' ''Confirmed'' mockAppointments =
      (Inl NotFound, mockAppointments)"
    by blast
  have "''apt-5'' \<in> apt_id ` set [a, b]"
    by (simp add: ids)
  with update_status_accepts_every_transition [of "''apt-5''" "[a, b]" "''Cancelled''"]
  obtain k where k: "k < length [a, b]" "\<forall>j < k. apt_id ([a, b] ! j) \<noteq> ''apt-5''"
    and upd: "updateAppointmentStatus ''apt-5'' ''Cancelled'' [a, b] =
      (Inr (([a, b] ! k)\<lparr>status := ''Cancelled''\<rparr>),
       [a, b][k := ([a, b] ! k)\<lparr>status := ''Cancelled''\<rparr>])"
    by blast
  have "k = 0"
  proof (rule ccontr)
    assume "k \<noteq> 0"
    then have "0 < k" by simp
    with k(2) have "apt_id ([a, b] ! 0) \<noteq> ''apt-5''" by blast
    with ids(1) show False by simp
  qed
  with upd have "updateAppointmentStatus ''apt-5'' ''Cancelled'' [a, b] =
      (Inr (a\<lparr>status := ''Cancelled''\<rparr>), [a\<lparr>status := ''Cancelled''\<rparr>, b])"
    by simp
  with absent ids show ?thesis
    unfolding a_def b_def by (intro conjI)
qed

text \<open>
  The claim as stated fails: in the initial data \<^verbatim>\<open>apt-006\<close> is completed, and updating
  it to \<^verbatim>\<open>Scheduled\<close> succeeds.
\<close>

theorem completed_to_scheduled_succeeds:
  "status apt_006 = ''Completed'' \<and> mockAppointments ! 5 = apt_006 \<and>
   updateAppointmentStatus ''apt-006'' ''Scheduled'' mockAppointments =
     (Inr (apt_006\<lparr>status := ''Scheduled''\<rparr>),
      mockAppointments[5 := apt_006\<lparr>status := ''Scheduled''\<rparr>])"
proof (intro conjI)
  show "status apt_006 = ''Completed''"
    by (simp add: apt_006_def)
  show "mockAppointments ! 5 = apt_006"
    by (simp add: mockAppointments_def)
  show "updateAppointmentStatus ''apt-006'' ''Scheduled'' mockAppointments =
     (Inr (apt_006\<lparr>status := ''Scheduled''\<rparr>),
      mockAppointments[5 := apt_006\<lparr>status := ''Scheduled''\<rparr>])"
    by (simp add: updateAppointmentStatus_def mockAppointments_def mock_ids)
qed

section \<open>Failure leaves the store unchanged\<close>

text \<open>
  Claim C7. Each of the three mutating operations either succeeds, and then the store
  is the old one with exactly the change made (the new appointment appended; the status
  of the found appointment written; the found appointment removed), or fails, and then
  the store returned is the store given. A failure is an error value (\<open>NotFound\<close> is the
  only one of a status update), and \<open>False\<close> for a deletion.
\<close>

theorem operations_all_or_nothing:
  "(case fst (createAppointment now p st) of
      Inl e \<Rightarrow> snd (createAppointment now p st) = st
    | Inr a \<Rightarrow> a = new_appointment now p \<and> snd (createAppointment now p st) = st @ [a]) \<and>
   (case fst (updateAppointmentStatus i s st) of
      Inl e \<Rightarrow> e = NotFound \<and> snd (updateAppointmentStatus i s st) = st
    | Inr a \<Rightarrow>
        (\<exists>k < length st. apt_id (st ! k) = i \<and> a = (st ! k)\<lparr>status := s\<rparr> \<and>
           snd (updateAppointmentStatus i s st) = st[k := a])) \<and>
   (if fst (deleteAppointment i st)
    then (\<exists>k < length st. apt_id (st ! k) = i \<and>
            snd (deleteAppointment i st) = take k st @ drop (Suc k) st)
    else snd (deleteAppointment i st) = st)"
proof (intro conjI)
  show "case fst (createAppointment now p st) of
      Inl e \<Rightarrow> snd (createAppointment now p st) = st
    | Inr a \<Rightarrow> a = new_appointment now p \<and> snd (createAppointment now p st) = st @ [a]"
    by (simp add: createAppointment_def split: option.splits)
next
  show "case fst (updateAppointmentStatus i s st) of
      Inl e \<Rightarrow> e = NotFound \<and> snd (updateAppointmentStatus i s st) = st
    | Inr a \<Rightarrow>
        (\<exists>k < length st. apt_id (st ! k) = i \<and> a = (st ! k)\<lparr>status := s\<rparr> \<and>
           snd (updateAppointmentStatus i s st) = st[k := a])"
    by (auto simp: updateAppointmentStatus_def dest: findIndex_SomeD split: option.splits)
next
  show "if fst (deleteAppointment i st)
    then (\<exists>k < length st. apt_id (st ! k) = i \<and>
            snd (deleteAppointment i st) = take k st @ drop (Suc k) st)
    else snd (deleteAppointment i st) = st"
    by (auto simp: deleteAppointment_def dest: findIndex_SomeD split: option.splits)
qed

section \<open>Validation of a request\<close>

lemma check_required_unfold:
  "check_required p required =
     (if falsy_str (p_patientName p) then Some ''patientName''
      else if falsy_str (p_date p) then Some ''date''
      else if falsy_str (p_time p) then Some ''time''
      else if falsy_num (p_duration p) then Some ''duration''
      else if falsy_str (p_doctorName p) then Some ''doctorName''
      else if falsy_str (p_mode p) then Some ''mode''
      else None)"
  by (simp add: required_def field_falsy_def)

lemma create_MissingField_iff:
  "fst (createAppointment now p st) = Inl (MissingField f) \<longleftrightarrow> check_required p required = Some f"
  by (simp add: createAppointment_def split: option.splits)

lemma digit_val_T: "digit_val CHR ''T'' = None"
  by (simp add: digit_val_def)

lemma newDate_SomeD:
  assumes "newDate s = Some y"
  shows "length s = 16 \<and> digit_val (s ! 0) \<noteq> None \<and> digit_val (s ! 15) \<noteq> None"
  using assms
  by (cases s rule: newDate.cases)
    (auto simp: num4_def num2_def split: if_splits option.splits)

lemma newDate_parts_nonempty:
  assumes "newDate (d @ ''T'' @ t) = Some y"
  shows "d \<noteq> [] \<and> t \<noteq> []"
proof -
  from newDate_SomeD [OF assms]
  have len: "length d + length t = 15"
    and first: "digit_val ((d @ ''T'' @ t) ! 0) \<noteq> None"
    and last: "digit_val ((d @ ''T'' @ t) ! 15) \<noteq> None"
    by simp_all
  have "d \<noteq> []"
    using first by (auto simp: digit_val_T)
  moreover have "t \<noteq> []"
  proof
    assume "t = []"
    with len have "length d = 15" by simp
    with \<open>t = []\<close> last show False
      by (simp add: nth_append digit_val_T)
  qed
  ultimately show ?thesis ..
qed

lemma valid_request_passes:
  assumes "valid_request p"
  shows "check_required p required = None"
proof -
  from assms obtain y where "newDate (str_of (p_date p) @ ''T'' @ str_of (p_time p)) = Some y"
    by (auto simp: valid_request_def)
  from newDate_parts_nonempty [OF this]
  have "\<not> falsy_str (p_date p)" "\<not> falsy_str (p_time p)"
    by (auto simp: falsy_str_def str_of_def split: option.splits)
  moreover from assms
  have "\<not> falsy_str (p_patientName p)" "\<not> falsy_num (p_duration p)"
    "\<not> falsy_str (p_doctorName p)" "\<not> falsy_str (p_mode p)"
    by (auto simp: valid_request_def falsy_str_def falsy_num_def split: option.splits)
  ultimately show ?thesis
    by (simp add: check_required_unfold)
qed

lemma form_payload_sel [simp]:
  "p_patientName (form_payload pn d t n dn m) = Some pn"
  "p_date (form_payload pn d t n dn m) = Some d"
  "p_time (form_payload pn d t n dn m) = Some t"
  "p_duration (form_payload pn d t n dn m) = Some n"
  "p_doctorName (form_payload pn d t n dn m) = Some dn"
  "p_mode (form_payload pn d t n dn m) = Some m"
  "p_status (form_payload pn d t n dn m) = None"
  by (simp_all add: form_payload_def)

lemma form_payload_passes:
  "pn \<noteq> [] \<Longrightarrow> d \<noteq> [] \<Longrightarrow> t \<noteq> [] \<Longrightarrow> n \<noteq> 0 \<Longrightarrow> dn \<noteq> [] \<Longrightarrow> m \<noteq> [] \<Longrightarrow>
   check_required (form_payload pn d t n dn m) required = None"
  by (simp add: check_required_unfold falsy_str_def falsy_num_def)

text \<open>
  Claim C5, as amended. \<open>createAppointment\<close> checks the six required fields in the
  order patientName, date, time, duration, doctorName, mode, and fails with
  \<open>MissingField f\<close> exactly when \<open>f\<close> is the first of them that is missing or falsy
  (absent, the empty string, or for the duration \<^verbatim>\<open>NaN\<close> or zero). Nothing else is
  validated: whether date and time parse, whether the duration is positive and whether
  the mode is one of the three known values play no part.
\<close>

theorem create_required_fields_in_order:
  "(fst (createAppointment now p st) = Inl (MissingField f)) =
     (f = ''patientName'' \<and> falsy_str (p_patientName p) \<or>
      f = ''date'' \<and> \<not> falsy_str (p_patientName p) \<and> falsy_str (p_date p) \<or>
      f = ''time'' \<and> \<not> falsy_str (p_patientName p) \<and> \<not> falsy_str (p_date p) \<and>
        falsy_str (p_time p) \<or>
      f = ''duration'' \<and> \<not> falsy_str (p_patientName p) \<and> \<not> falsy_str (p_date p) \<and>
        \<not> falsy_str (p_time p) \<and> falsy_num (p_duration p) \<or>
      f = ''doctorName'' \<and> \<not> falsy_str (p_patientName p) \<and> \<not> falsy_str (p_date p) \<and>
        \<not> falsy_str (p_time p) \<and> \<not> falsy_num (p_duration p) \<and> falsy_str (p_doctorName p) \<or>
      f = ''mode'' \<and> \<not> falsy_str (p_patientName p) \<and> \<not> falsy_str (p_date p) \<and>
        \<not> falsy_str (p_time p) \<and> \<not> falsy_num (p_duration p) \<and>
        \<not> falsy_str (p_doctorName p) \<and> falsy_str (p_mode p))"
  unfolding create_MissingField_iff check_required_unfold
  by auto

theorem create_required_fields_in_order_witness:
  "fst (createAppointment 5 (form_payload ''Ann Lee'' [] ''09:00'' 0 ''Dr. A'' []) mockAppointments) =
     Inl (MissingField ''date'')"
  using create_required_fields_in_order
    [of 5 "form_payload ''Ann Lee'' [] ''09:00'' 0 ''Dr. A'' []" mockAppointments "''date''"]
  by (simp add: falsy_str_def)

text \<open>
  The claim as stated fails: a request whose date does not parse, one with a negative
  duration and one with an unknown mode are each not valid, and each is accepted and
  stored.
\<close>

theorem ill_formed_requests_accepted:
  "\<not> valid_request request_bad_date \<and>
   createAppointment 5 request_bad_date [] =
     (Inr (new_appointment 5 request_bad_date), [new_appointment 5 request_bad_date]) \<and>
   \<not> valid_request request_negative_duration \<and>
   createAppointment 5 request_negative_duration [] =
     (Inr (new_appointment 5 request_negative_duration),
      [new_appointment 5 request_negative_duration]) \<and>
   \<not> valid_request request_unknown_mode \<and>
   createAppointment 5 request_unknown_mode [] =
     (Inr (new_appointment 5 request_unknown_mode), [new_appointment 5 request_unknown_mode])"
  by (simp add: valid_request_def request_bad_date_def request_negative_duration_def
      request_unknown_mode_def createAppointment_def form_payload_passes str_of_def)

section \<open>Conflict detection\<close>

lemmas date_eval =
  num4_def num2_def digit_val_def make_time_def days_in_month_def leap_year_def
  days_from_civil_def timeClip_def addMinutes_def date_lt_def date_gt_def

lemma new_appointment_sel [simp]:
  "apt_id (new_appointment now p) = ''apt-'' @ decimal now"
  "patientName (new_appointment now p) = str_of (p_patientName p)"
  "date (new_appointment now p) = str_of (p_date p)"
  "time (new_appointment now p) = str_of (p_time p)"
  "duration (new_appointment now p) = num_of (p_duration p)"
  "doctorName (new_appointment now p) = str_of (p_doctorName p)"
  "status (new_appointment now p) = status_or_default (p_status p)"
  "mode (new_appointment now p) = str_of (p_mode p)"
  by (simp_all add: new_appointment_def)

lemma date_gt_lt: "date_gt a b = date_lt b a"
  by (simp add: date_gt_def date_lt_def split: option.splits)

lemma overlaps_sym: "overlaps a b = overlaps b a"
  by (auto simp: overlaps_def)

lemma time_clash_overlaps: "time_clash p a = overlaps a (new_appointment now p)"
  by (auto simp: time_clash_def overlaps_def start_of_def end_of_def date_gt_lt Let_def)

lemma blocks_iff: "blocks a (new_appointment now p) \<longleftrightarrow> same_slot_owner p a \<and> time_clash p a"
  by (auto simp: blocks_def same_slot_owner_def time_clash_overlaps [of p a now])

lemma find_filter_None:
  "find P (filter Q xs) = None \<longleftrightarrow> (\<forall>x \<in> set xs. \<not> (Q x \<and> P x))"
  by (auto simp: find_None_iff)

lemma find_filter_SomeD:
  "find P (filter Q xs) = Some a \<Longrightarrow> a \<in> set xs \<and> Q a \<and> P a"
  by (induction xs) (auto split: if_splits)

lemma create_result:
  assumes "check_required p required = None"
  shows "createAppointment now p st =
     (case find (time_clash p) (filter (same_slot_owner p) st) of
        Some a \<Rightarrow> (Inl (TimeConflict (time a)), st)
      | None \<Rightarrow> (Inr (new_appointment now p), st @ [new_appointment now p]))"
  using assms by (simp add: createAppointment_def)

lemma touching_intervals_disjoint: "end_of a = start_of c \<Longrightarrow> \<not> overlaps a c"
  by (auto simp: overlaps_def date_lt_def split: option.splits)

lemma blocks_active:
  assumes "status a \<in> set [''Scheduled'', ''Upcoming'', ''Confirmed'', ''Completed'', ''Cancelled'']"
  shows "blocks a c \<longleftrightarrow>
    doctorName a = doctorName c \<and> date a = date c \<and> active_status (status a) \<and> overlaps a c"
  using assms by (auto simp: blocks_def active_status_def)

text \<open>
  Claim C3, as amended. For every request that passes the required-field check (every
  valid request does), \<open>createAppointment\<close> fails with a conflict exactly when some
  stored appointment blocks the candidate: same doctor, same date string, status neither
  \<^verbatim>\<open>Cancelled\<close> nor \<^verbatim>\<open>Completed\<close>, and half-open intervals that overlap. The error
  carries the time of such an appointment; with no such appointment the request is
  stored. An appointment that ends exactly when the candidate starts does not overlap it.
\<close>

theorem create_conflict_iff:
  assumes "check_required p required = None"
  shows "((\<exists>t. fst (createAppointment now p st) = Inl (TimeConflict t)) \<longleftrightarrow>
            (\<exists>a \<in> set st. blocks a (new_appointment now p))) \<and>
         (\<forall>t. fst (createAppointment now p st) = Inl (TimeConflict t) \<longrightarrow>
            (\<exists>a \<in> set st. blocks a (new_appointment now p) \<and> time a = t)) \<and>
         ((\<forall>a \<in> set st. \<not> blocks a (new_appointment now p)) \<longrightarrow>
            createAppointment now p st =
              (Inr (new_appointment now p), st @ [new_appointment now p])) \<and>
         (\<forall>a. end_of a = start_of (new_appointment now p) \<longrightarrow>
            \<not> overlaps a (new_appointment now p))"
proof -
  define c where "c = new_appointment now p"
  define r where "r = createAppointment now p st"
  have touch: "\<forall>a. end_of a = start_of c \<longrightarrow> \<not> overlaps a c"
    by (simp add: touching_intervals_disjoint)
  have "((\<exists>t. fst r = Inl (TimeConflict t)) \<longleftrightarrow> (\<exists>a \<in> set st. blocks a c)) \<and>
        (\<forall>t. fst r = Inl (TimeConflict t) \<longrightarrow> (\<exists>a \<in> set st. blocks a c \<and> time a = t)) \<and>
        ((\<forall>a \<in> set st. \<not> blocks a c) \<longrightarrow> r = (Inr c, st @ [c]))"
  proof (cases "find (time_clash p) (filter (same_slot_owner p) st)")
    case None
    then have free: "\<forall>a \<in> set st. \<not> blocks a c"
      by (simp add: find_filter_None blocks_iff c_def)
    from None have "r = (Inr c, st @ [c])"
      by (simp add: create_result [OF assms] r_def c_def)
    with free show ?thesis
      by simp
  next
    case (Some a)
    from find_filter_SomeD [OF Some]
    have a: "a \<in> set st" "blocks a c"
      by (simp_all add: blocks_iff c_def)
    from Some have "r = (Inl (TimeConflict (time a)), st)"
      by (simp add: create_result [OF assms] r_def)
    with a show ?thesis
      by auto
  qed
  with touch show ?thesis
    unfolding c_def r_def by blast
qed

lemma morning_same_slot_owner:
  "same_slot_owner request_0915 morning" "same_slot_owner request_0930 morning"
  by (simp_all add: same_slot_owner_def request_0915_def request_0930_def morning_def str_of_def)

lemma morning_time_clash:
  "time_clash request_0915 morning" "\<not> time_clash request_0930 morning"
  by (simp_all add: time_clash_def request_0915_def request_0930_def morning_def str_of_def
      num_of_def date_eval)

lemma morning_requests_pass:
  "check_required request_0915 required = None" "check_required request_0930 required = None"
  by (simp_all add: request_0915_def request_0930_def form_payload_passes)

lemma morning_0915:
  "createAppointment 7 request_0915 [morning] = (Inl (TimeConflict ''09:00''), [morning])"
  by (simp add: createAppointment_def morning_same_slot_owner morning_time_clash
      morning_requests_pass) (simp add: morning_def)

lemma morning_0930:
  "createAppointment 7 request_0930 [morning] =
     (Inr (new_appointment 7 request_0930), [morning, new_appointment 7 request_0930])"
  by (simp add: createAppointment_def morning_same_slot_owner morning_time_clash
      morning_requests_pass)

theorem create_conflict_iff_witness:
  "check_required request_0915 required = None \<and>
   fst (createAppointment 7 request_0915 [morning]) = Inl (TimeConflict ''09:00'') \<and>
   blocks morning (new_appointment 7 request_0915) \<and>
   check_required request_0930 required = None \<and>
   end_of morning = start_of (new_appointment 7 request_0930) \<and>
   \<not> overlaps morning (new_appointment 7 request_0930) \<and>
   createAppointment 7 request_0930 [morning] =
     (Inr (new_appointment 7 request_0930), [morning, new_appointment 7 request_0930])"
proof -
  note p1 = morning_requests_pass(1) and p2 = morning_requests_pass(2)
  have touch: "end_of morning = start_of (new_appointment 7 request_0930)"
    by (simp add: end_of_def start_of_def morning_def request_0930_def str_of_def date_eval)
  have conflict: "fst (createAppointment 7 request_0915 [morning]) = Inl (TimeConflict ''09:00'')"
    by (simp only: morning_0915 fst_conv)
  from create_conflict_iff [OF p1, of 7 "[morning]"] conflict
  have "\<exists>a \<in> set [morning]. blocks a (new_appointment 7 request_0915)"
    by blast
  then have blocked: "blocks morning (new_appointment 7 request_0915)"
    by simp
  from create_conflict_iff [OF p2, of 7 "[morning]"] touch
  have apart: "\<not> overlaps morning (new_appointment 7 request_0930)"
    by blast
  from p1 conflict blocked p2 touch apart morning_0930 show ?thesis
    by (intro conjI)
qed

text \<open>
  The claim as stated fails in both directions. An active appointment of the same
  doctor that runs from 23:30 over midnight overlaps a request for 00:00 of the next
  day, and the request is accepted. And an appointment whose status is not in the
  active set (here \<^verbatim>\<open>Checked-in\<close>; the code accepts any status string) makes an
  overlapping request fail.
\<close>

lemma overnight_facts:
  "check_required request_midnight required = None"
  "valid_request request_midnight"
  "\<not> same_slot_owner request_midnight late_evening"
  "overlaps late_evening (new_appointment 7 request_midnight)"
     apply (simp add: request_midnight_def form_payload_passes)
    apply (simp add: valid_request_def request_midnight_def falsy_str_def str_of_def date_eval)
   apply (simp add: same_slot_owner_def request_midnight_def late_evening_def str_of_def)
  apply (simp add: overlaps_def start_of_def end_of_def request_midnight_def late_evening_def
      str_of_def num_of_def date_eval)
  done

lemma checked_in_facts:
  "valid_request request_0915"
  "same_slot_owner request_0915 checked_in"
  "time_clash request_0915 checked_in"
  "\<not> active_status (status checked_in)"
  "time checked_in = ''09:00''"
      apply (simp add: valid_request_def request_0915_def falsy_str_def str_of_def date_eval)
     apply (simp add: same_slot_owner_def request_0915_def checked_in_def morning_def str_of_def)
    apply (simp add: time_clash_def request_0915_def checked_in_def morning_def str_of_def
      num_of_def date_eval)
   apply (simp add: active_status_def checked_in_def)
  apply (simp add: checked_in_def morning_def)
  done

theorem conflict_check_differs_from_overlap:
  "valid_request request_midnight \<and>
   doctorName late_evening = ''Dr. A'' \<and> p_doctorName request_midnight = Some ''Dr. A'' \<and>
   active_status (status late_evening) \<and>
   overlaps late_evening (new_appointment 7 request_midnight) \<and>
   createAppointment 7 request_midnight [late_evening] =
     (Inr (new_appointment 7 request_midnight),
      [late_evening, new_appointment 7 request_midnight]) \<and>
   valid_request request_0915 \<and> \<not> active_status (status checked_in) \<and>
   createAppointment 7 request_0915 [checked_in] = (Inl (TimeConflict ''09:00''), [checked_in])"
proof (intro conjI)
  show "doctorName late_evening = ''Dr. A''"
    by (simp add: late_evening_def)
  show "p_doctorName request_midnight = Some ''Dr. A''"
    by (simp add: request_midnight_def)
  show "active_status (status late_evening)"
    by (simp add: late_evening_def active_status_def)
  show "createAppointment 7 request_midnight [late_evening] =
     (Inr (new_appointment 7 request_midnight),
      [late_evening, new_appointment 7 request_midnight])"
    by (simp add: createAppointment_def overnight_facts)
  show "createAppointment 7 request_0915 [checked_in] = (Inl (TimeConflict ''09:00''), [checked_in])"
    by (simp add: createAppointment_def checked_in_facts valid_request_passes)
qed (rule overnight_facts checked_in_facts)+

section \<open>The conflict check looks at one date only\<close>

lemma filter_same_slot_owner_date:
  "p_date p = Some d \<Longrightarrow>
   filter (same_slot_owner p) (filter (\<lambda>a. date a = d) st) = filter (same_slot_owner p) st"
  by (induction st) (auto simp: same_slot_owner_def str_of_def)

text \<open>
  Claim C4. The outcome of \<open>createAppointment\<close> depends on the stored appointments
  with exactly the request's date string and on no others: dropping every appointment
  of another date from the store changes neither the error nor the appointment
  returned. A conflict that is reported names the time of an appointment stored under
  the request's date, and a store with no appointment of that date gives no conflict,
  also when an appointment of the day before runs past midnight into the requested time.
\<close>

theorem create_conflict_same_date_only:
  assumes "p_date p = Some d"
  shows "fst (createAppointment now p st) =
           fst (createAppointment now p (filter (\<lambda>a. date a = d) st)) \<and>
         (\<forall>t. fst (createAppointment now p st) = Inl (TimeConflict t) \<longrightarrow>
            (\<exists>a \<in> set st. date a = d \<and> time a = t)) \<and>
         ((\<forall>a \<in> set st. date a \<noteq> d) \<longrightarrow>
            (\<forall>t. fst (createAppointment now p st) \<noteq> Inl (TimeConflict t)))"
proof -
  have same: "fst (createAppointment now p st) =
      fst (createAppointment now p (filter (\<lambda>a. date a = d) st))"
    unfolding createAppointment_def filter_same_slot_owner_date [OF assms]
    by (simp split: option.splits)
  have cause: "\<exists>a \<in> set st. date a = d \<and> time a = t"
    if "fst (createAppointment now p st) = Inl (TimeConflict t)" for t
  proof -
    from that obtain a where
      a: "find (time_clash p) (filter (same_slot_owner p) st) = Some a" "time a = t"
      by (auto simp: createAppointment_def split: option.splits)
    from find_filter_SomeD [OF a(1)] have "a \<in> set st" "same_slot_owner p a"
      by simp_all
    with assms a(2) show ?thesis
      by (auto simp: same_slot_owner_def str_of_def)
  qed
  from same cause show ?thesis
    by blast
qed

lemma request_0015_facts:
  "p_date request_0015 = Some ''2024-12-30''"
  "check_required request_0015 required = None"
  "overlaps late_evening (new_appointment 8 request_0015)"
    apply (simp add: request_0015_def)
   apply (simp add: request_0015_def form_payload_passes)
  apply (simp add: overlaps_def start_of_def end_of_def request_0015_def late_evening_def
      str_of_def num_of_def date_eval)
  done

lemma request_0015_empty:
  "createAppointment 8 request_0015 [] =
     (Inr (new_appointment 8 request_0015), [new_appointment 8 request_0015])"
  by (simp add: createAppointment_def request_0015_facts)

theorem create_conflict_same_date_only_witness:
  "p_date request_0015 = Some ''2024-12-30'' \<and> date late_evening = ''2024-12-29'' \<and>
   overlaps late_evening (new_appointment 8 request_0015) \<and>
   fst (createAppointment 8 request_0015 [late_evening]) = Inr (new_appointment 8 request_0015)"
proof -
  have d: "date late_evening = ''2024-12-29''"
    by (simp add: late_evening_def)
  then have "filter (\<lambda>a. date a = ''2024-12-30'') [late_evening] = []"
    by simp
  with create_conflict_same_date_only [OF request_0015_facts(1), of 8 "[late_evening]"]
  have "fst (createAppointment 8 request_0015 [late_evening]) =
      fst (createAppointment 8 request_0015 [])"
    by (simp only: simp_thms)
  then have "fst (createAppointment 8 request_0015 [late_evening]) =
      Inr (new_appointment 8 request_0015)"
    by (simp only: request_0015_empty fst_conv)
  with d request_0015_facts show ?thesis
    by (intro conjI)
qed

section \<open>Identifiers of created appointments\<close>

text \<open>
  Claim C6 does not hold of the code. The id is \<^verbatim>\<open>apt-\<close> followed by the clock reading
  in milliseconds and nothing else, so two requests created while \<^verbatim>\<open>Date.now()\<close> returns
  the same value get the same id: both calls below succeed and both appointments are
  stored under \<^verbatim>\<open>apt-1735460000000\<close>.
\<close>

theorem same_millisecond_same_id:
  "createAppointment 1735460000000 request_0930 [] =
     (Inr (new_appointment 1735460000000 request_0930),
      [new_appointment 1735460000000 request_0930]) \<and>
   createAppointment 1735460000000 request_other_doctor
       [new_appointment 1735460000000 request_0930] =
     (Inr (new_appointment 1735460000000 request_other_doctor),
      [new_appointment 1735460000000 request_0930,
       new_appointment 1735460000000 request_other_doctor]) \<and>
   apt_id (new_appointment 1735460000000 request_0930) = ''apt-1735460000000'' \<and>
   apt_id (new_appointment 1735460000000 request_other_doctor) = ''apt-1735460000000''"
proof (intro conjI)
  have pass: "check_required request_0930 required = None"
    "check_required request_other_doctor required = None"
    by (simp_all add: request_0930_def request_other_doctor_def form_payload_passes)
  show "createAppointment 1735460000000 request_0930 [] =
     (Inr (new_appointment 1735460000000 request_0930),
      [new_appointment 1735460000000 request_0930])"
    by (simp add: createAppointment_def pass)
  have "\<not> same_slot_owner request_other_doctor (new_appointment 1735460000000 request_0930)"
    by (simp add: same_slot_owner_def request_other_doctor_def request_0930_def str_of_def)
  then show "createAppointment 1735460000000 request_other_doctor
       [new_appointment 1735460000000 request_0930] =
     (Inr (new_appointment 1735460000000 request_other_doctor),
      [new_appointment 1735460000000 request_0930,
       new_appointment 1735460000000 request_other_doctor])"
    by (simp add: createAppointment_def pass)
  show "apt_id (new_appointment 1735460000000 request_0930) = ''apt-1735460000000''"
    by (simp add: decimal_eval)
  show "apt_id (new_appointment 1735460000000 request_other_doctor) = ''apt-1735460000000''"
    by (simp add: decimal_eval)
qed

section \<open>The listing\<close>

lemma mock_dates:
  "date apt_001 = ''2024-12-29''" "date apt_002 = ''2024-12-29''" "date apt_003 = ''2024-12-29''"
  "date apt_004 = ''2024-12-30''" "date apt_005 = ''2024-12-30''" "date apt_006 = ''2024-12-28''"
  "date apt_007 = ''2024-12-28''" "date apt_008 = ''2024-12-27''" "date apt_009 = ''2025-01-02''"
  "date apt_010 = ''2025-01-02''"
  by (simp_all add: apt_001_def apt_002_def apt_003_def apt_004_def apt_005_def apt_006_def
      apt_007_def apt_008_def apt_009_def apt_010_def)

lemma mock_times:
  "time apt_001 = ''09:00''" "time apt_002 = ''10:00''" "time apt_003 = ''11:30''"
  "time apt_004 = ''09:30''" "time apt_005 = ''14:00''" "time apt_006 = ''10:00''"
  "time apt_007 = ''15:30''" "time apt_008 = ''11:00''" "time apt_009 = ''09:00''"
  "time apt_010 = ''13:00''"
  by (simp_all add: apt_001_def apt_002_def apt_003_def apt_004_def apt_005_def apt_006_def
      apt_007_def apt_008_def apt_009_def apt_010_def)

lemma mock_listing:
  "getAppointments no_filters mockAppointments =
     [apt_008, apt_006, apt_007, apt_001, apt_002, apt_003, apt_004, apt_005, apt_009, apt_010]"
  by (simp add: getAppointments_def no_filters_def falsy_str_def mockAppointments_def
      compare_appointments_def localeCompare_def mock_dates mock_times)

text \<open>
  Claim C8. The tab refinement works on the list that the base filter and the sort
  produced, and keeps exactly: for \<^verbatim>\<open>today\<close> the appointments whose date is the reference
  date; for \<^verbatim>\<open>upcoming\<close> those whose date is not before the reference date and whose
  status is active; for \<^verbatim>\<open>past\<close> those whose date is before the reference date or whose
  status is \<^verbatim>\<open>Completed\<close>; for \<^verbatim>\<open>all\<close> every one.
\<close>

theorem query_tab_refinement:
  "Query f ''today'' referenceDate st =
     filter (\<lambda>a. date a = referenceDate) (getAppointments f st) \<and>
   Query f ''upcoming'' referenceDate st =
     filter (\<lambda>a. date a \<ge> referenceDate \<and> active_status (status a)) (getAppointments f st) \<and>
   Query f ''past'' referenceDate st =
     filter (\<lambda>a. date a < referenceDate \<or> status a = ''Completed'') (getAppointments f st) \<and>
   Query f ''all'' referenceDate st = getAppointments f st"
  by (simp add: Query_def getFilteredAppointments_def active_status_def)

theorem query_tab_refinement_witness:
  "Query no_filters ''today'' ''2024-12-29'' mockAppointments = [apt_001, apt_002, apt_003]"
proof -
  from query_tab_refinement [of no_filters "''2024-12-29''" mockAppointments]
  have "Query no_filters ''today'' ''2024-12-29'' mockAppointments =
      filter (\<lambda>a. date a = ''2024-12-29'') (getAppointments no_filters mockAppointments)"
    by (rule conjunct1)
  also have "\<dots> = [apt_001, apt_002, apt_003]"
    by (simp add: mock_listing mock_dates)
  finally show ?thesis .
qed

lemma compare_appointments_le: "compare_appointments a b \<le> 0 \<longleftrightarrow> date_time_le a b"
  by (auto simp: compare_appointments_def localeCompare_def date_time_le_def)

lemma date_time_le_total: "\<not> date_time_le a b \<Longrightarrow> date_time_le b a"
  by (auto simp: date_time_le_def)

lemma date_time_le_trans: "date_time_le a b \<Longrightarrow> date_time_le b c \<Longrightarrow> date_time_le a c"
  by (auto simp: date_time_le_def)

lemma set_insert_by: "set (insert_by cmp x xs) = insert x (set xs)"
  by (induction xs) auto

lemma set_sort_by: "set (sort_by cmp xs) = set xs"
  by (induction xs) (auto simp: set_insert_by)

lemma sorted_insert_by:
  assumes "sorted_wrt date_time_le xs"
  shows "sorted_wrt date_time_le (insert_by compare_appointments x xs)"
  using assms
proof (induction xs)
  case Nil
  then show ?case by simp
next
  case (Cons y ys)
  show ?case
  proof (cases "compare_appointments x y \<le> 0")
    case True
    then have xy: "date_time_le x y"
      by (simp add: compare_appointments_le)
    with Cons.prems have "\<forall>z \<in> set (y # ys). date_time_le x z"
      by (auto intro: date_time_le_trans)
    with True Cons.prems show ?thesis
      by simp
  next
    case False
    then have yx: "date_time_le y x"
      by (simp add: compare_appointments_le date_time_le_total)
    from Cons.prems have "sorted_wrt date_time_le ys" "\<forall>z \<in> set ys. date_time_le y z"
      by simp_all
    with False yx Cons.IH show ?thesis
      by (simp add: set_insert_by)
  qed
qed

lemma sorted_sort_by: "sorted_wrt date_time_le (sort_by compare_appointments xs)"
  by (induction xs) (simp_all add: sorted_insert_by)

lemma sorted_getAppointments: "sorted_wrt date_time_le (getAppointments f st)"
  by (simp add: getAppointments_def Let_def sorted_sort_by)

text \<open>
  Claim C9. On a store whose dates and times are ISO-formatted, whatever the filter,
  the tab and the reference date, the list that the query returns is in ascending order
  of date, and of time within a date, the strings being compared lexicographically. The
  initial data, in this order, is the witness.
\<close>

theorem query_sorted:
  assumes "iso_formatted st"
  shows "sorted_wrt date_time_le (Query f tab referenceDate st)"
  by (simp add: Query_def getFilteredAppointments_def sorted_getAppointments sorted_wrt_filter)

theorem query_sorted_witness:
  "iso_formatted mockAppointments \<and>
   Query no_filters ''all'' ''2024-12-29'' mockAppointments =
     [apt_008, apt_006, apt_007, apt_001, apt_002, apt_003, apt_004, apt_005, apt_009, apt_010] \<and>
   sorted_wrt date_time_le
     [apt_008, apt_006, apt_007, apt_001, apt_002, apt_003, apt_004, apt_005, apt_009, apt_010]"
proof -
  have listing: "Query no_filters ''all'' ''2024-12-29'' mockAppointments =
     [apt_008, apt_006, apt_007, apt_001, apt_002, apt_003, apt_004, apt_005, apt_009, apt_010]"
    by (simp add: Query_def getFilteredAppointments_def mock_listing)
  have iso: "iso_formatted mockAppointments"
    by (simp add: iso_formatted_def mockAppointments_def mock_dates mock_times is_digit_def
        digit_val_def)
  from query_sorted [OF iso, of no_filters "''all''" "''2024-12-29''"]
  have "sorted_wrt date_time_le
     [apt_008, apt_006, apt_007, apt_001, apt_002, apt_003, apt_004, apt_005, apt_009, apt_010]"
    by (simp only: listing)
  with iso listing show ?thesis
    by (intro conjI)
qed

section \<open>Double booking\<close>

lemma calmer_refl: "calmer a a"
  by (simp add: calmer_def)

lemma calmer_status_update:
  "(active_status s \<longrightarrow> active_status (status a)) \<Longrightarrow> calmer (a\<lparr>status := s\<rparr>) a"
  by (simp add: calmer_def)

lemma calmer_double_booked:
  assumes "calmer a' a" and "calmer b' b" and "date a' = date b' \<and> double_booked a' b'"
  shows "date a = date b \<and> double_booked a b"
  using assms
  by (auto simp: calmer_def double_booked_def overlaps_def start_of_def end_of_def)

lemma double_booked_blocks:
  assumes "date a = date c" and "double_booked a c"
  shows "blocks a c"
  using assms by (auto simp: double_booked_def blocks_def active_status_def)

lemma sorted_wrt_remove_nth:
  "sorted_wrt R xs \<Longrightarrow> sorted_wrt R (take k xs @ drop (Suc k) xs)"
proof (induction xs arbitrary: k)
  case Nil
  then show ?case by simp
next
  case (Cons x xs)
  show ?case
  proof (cases k)
    case 0
    with Cons.prems show ?thesis by simp
  next
    case (Suc n)
    have "set (take n xs @ drop (Suc n) xs) \<subseteq> set xs"
      by (auto dest: in_set_takeD in_set_dropD)
    with Cons.prems Cons.IH [of n] Suc show ?thesis
      by auto
  qed
qed

lemma create_preserves:
  assumes inv: "no_same_date_double_booking st"
    and ok: "createAppointment now p st = (Inr a, st')"
  shows "no_same_date_double_booking st'"
proof -
  from ok have pass: "check_required p required = None"
    by (auto simp: createAppointment_def split: option.splits)
  from ok have none: "find (time_clash p) (filter (same_slot_owner p) st) = None"
    and st': "st' = st @ [new_appointment now p]"
    by (auto simp: create_result [OF pass] split: option.splits)
  from none have "\<forall>x \<in> set st. \<not> blocks x (new_appointment now p)"
    by (simp add: find_filter_None blocks_iff)
  then have "\<forall>x \<in> set st.
      \<not> (date x = date (new_appointment now p) \<and> double_booked x (new_appointment now p))"
    using double_booked_blocks by blast
  with inv show ?thesis
    unfolding st' no_same_date_double_booking_def
    by (simp add: sorted_wrt_append)
qed

lemma delete_preserves:
  assumes inv: "no_same_date_double_booking st"
    and ok: "deleteAppointment i st = (True, st')"
  shows "no_same_date_double_booking st'"
proof -
  from ok obtain k where "st' = take k st @ drop (Suc k) st"
    by (auto simp: deleteAppointment_def split: option.splits)
  with inv show ?thesis
    by (simp add: no_same_date_double_booking_def sorted_wrt_remove_nth)
qed

lemma update_preserves:
  assumes inv: "no_same_date_double_booking st"
    and ok: "updateAppointmentStatus i s st = (Inr a, st')"
    and calm: "\<not> reactivates (UpdateStatus i s) st"
  shows "no_same_date_double_booking st'"
proof -
  from ok obtain k where k: "findIndex (\<lambda>a. apt_id a = i) st = Some k"
    and st': "st' = st[k := (st ! k)\<lparr>status := s\<rparr>]"
    by (auto simp: updateAppointmentStatus_def split: option.splits)
  from calm k have "active_status s \<longrightarrow> active_status (status (st ! k))"
    by auto
  then have upd: "calmer ((st ! k)\<lparr>status := s\<rparr>) (st ! k)"
    by (rule calmer_status_update)
  have pointwise: "calmer (st' ! n) (st ! n)" if "n < length st" for n
    using that upd by (cases "n = k") (simp_all add: st' calmer_refl)
  have "\<not> (date (st' ! m) = date (st' ! n) \<and> double_booked (st' ! m) (st' ! n))"
    if "m < n" "n < length st'" for m n
  proof -
    from that have mn: "m < length st" "n < length st"
      by (simp_all add: st')
    from inv that have "\<not> (date (st ! m) = date (st ! n) \<and> double_booked (st ! m) (st ! n))"
      by (simp add: no_same_date_double_booking_def sorted_wrt_iff_nth_less st')
    with calmer_double_booked [OF pointwise [OF mn(1)] pointwise [OF mn(2)]]
    show ?thesis by blast
  qed
  then show ?thesis
    by (simp add: no_same_date_double_booking_def sorted_wrt_iff_nth_less)
qed

lemma apply_operation_preserves:
  assumes "no_same_date_double_booking st"
    and "\<not> reactivates op st"
    and "apply_operation op st = Some st'"
  shows "no_same_date_double_booking st'"
proof (cases op)
  case (Create now p)
  with assms(3) obtain a where "createAppointment now p st = (Inr a, st')"
    by (auto split: prod.splits sum.splits)
  with assms(1) show ?thesis
    by (rule create_preserves)
next
  case (UpdateStatus i s)
  with assms(3) obtain a where "updateAppointmentStatus i s st = (Inr a, st')"
    by (auto split: prod.splits sum.splits)
  with assms(1) show ?thesis
    using assms(2) UpdateStatus by (auto intro: update_preserves)
next
  case (Delete i)
  with assms(3) have "deleteAppointment i st = (True, st')"
    by (auto split: prod.splits bool.splits)
  with assms(1) show ?thesis
    by (rule delete_preserves)
qed

text \<open>
  Claim C2, as amended. Start from a store in which no two appointments of the same
  doctor and the same date string, both with an active status, have overlapping
  intervals. After any sequence of successful \<open>Create\<close>, \<open>UpdateStatus\<close> and \<open>Delete\<close>
  calls in which no status update gives an active status to an appointment whose status
  was not active, the store has the same property.
\<close>

theorem no_same_date_double_booking_preserved:
  assumes "no_same_date_double_booking st"
    and "run_no_reactivation ops st = Some st'"
  shows "no_same_date_double_booking st'"
  using assms
proof (induction ops arbitrary: st)
  case Nil
  then show ?case by simp
next
  case (Cons op ops)
  from Cons.prems(2) obtain st1 where
    calm: "\<not> reactivates op st" and
    step: "apply_operation op st = Some st1" and
    rest: "run_no_reactivation ops st1 = Some st'"
    by (auto split: if_splits option.splits)
  from apply_operation_preserves [OF Cons.prems(1) calm step]
  have "no_same_date_double_booking st1" .
  from Cons.IH [OF this rest] show ?case .
qed

lemma calm_steps:
  "apply_operation (Create 7 request_0930) [morning] =
     Some [morning, new_appointment 7 request_0930]"
  "apply_operation (UpdateStatus ''apt-100'' ''Confirmed'')
       [morning, new_appointment 7 request_0930] =
     Some [morning\<lparr>status := ''Confirmed''\<rparr>, new_appointment 7 request_0930]"
  "apply_operation (Create 8 request_other_doctor)
       [morning\<lparr>status := ''Confirmed''\<rparr>, new_appointment 7 request_0930] =
     Some [morning\<lparr>status := ''Confirmed''\<rparr>, new_appointment 7 request_0930,
           new_appointment 8 request_other_doctor]"
  "apply_operation (Delete ''apt-8'')
       [morning\<lparr>status := ''Confirmed''\<rparr>, new_appointment 7 request_0930,
        new_appointment 8 request_other_doctor] =
     Some [morning\<lparr>status := ''Confirmed''\<rparr>, new_appointment 7 request_0930]"
     apply (simp add: morning_0930)
    apply (simp add: updateAppointmentStatus_def morning_def)
   apply (simp add: createAppointment_def request_other_doctor_def form_payload_passes
      same_slot_owner_def morning_def request_0930_def str_of_def)
  apply (simp add: deleteAppointment_def morning_def decimal_eval)
  done

lemma calm_steps_no_reactivation:
  "reactivates (Create 7 request_0930) [morning] = False"
  "reactivates (UpdateStatus ''apt-100'' ''Confirmed'')
     [morning, new_appointment 7 request_0930] = False"
  "reactivates (Create 8 request_other_doctor)
     [morning\<lparr>status := ''Confirmed''\<rparr>, new_appointment 7 request_0930] = False"
  "reactivates (Delete ''apt-8'')
     [morning\<lparr>status := ''Confirmed''\<rparr>, new_appointment 7 request_0930,
      new_appointment 8 request_other_doctor] = False"
  by (simp_all add: morning_def active_status_def)

theorem no_same_date_double_booking_preserved_witness:
  "no_same_date_double_booking [morning] \<and>
   run_no_reactivation
     [Create 7 request_0930, UpdateStatus ''apt-100'' ''Confirmed'',
      Create 8 request_other_doctor, Delete ''apt-8''] [morning] =
     Some [morning\<lparr>status := ''Confirmed''\<rparr>, new_appointment 7 request_0930] \<and>
   no_same_date_double_booking [morning\<lparr>status := ''Confirmed''\<rparr>, new_appointment 7 request_0930]"
proof -
  have start: "no_same_date_double_booking [morning]"
    by (simp add: no_same_date_double_booking_def)
  have steps: "run_no_reactivation
     [Create 7 request_0930, UpdateStatus ''apt-100'' ''Confirmed'',
      Create 8 request_other_doctor, Delete ''apt-8''] [morning] =
     Some [morning\<lparr>status := ''Confirmed''\<rparr>, new_appointment 7 request_0930]"
    by (simp only: run_no_reactivation.simps calm_steps calm_steps_no_reactivation
        if_False option.case)
  from start steps no_same_date_double_booking_preserved [OF start steps] show ?thesis
    by (intro conjI)
qed

text \<open>
  The claim as stated fails, for two reasons. Two creations suffice to book Dr. A from
  23:30 to 00:30 and from 00:00 to 00:30 of the next day, since the conflict check
  compares appointments of one date only. And since a status update accepts every
  transition, a cancelled appointment whose slot has been taken in the meantime can be
  set back to \<^verbatim>\<open>Scheduled\<close>. Both runs start from the empty store and end in a store
  with two overlapping active appointments of one doctor.
\<close>

lemma reactivation_steps:
  "apply_operation (Create 5 request_0930) [] = Some [new_appointment 5 request_0930]"
  "apply_operation (UpdateStatus ''apt-5'' ''Cancelled'') [new_appointment 5 request_0930] =
     Some [(new_appointment 5 request_0930)\<lparr>status := ''Cancelled''\<rparr>]"
  "apply_operation (Create 6 request_0930)
       [(new_appointment 5 request_0930)\<lparr>status := ''Cancelled''\<rparr>] =
     Some [(new_appointment 5 request_0930)\<lparr>status := ''Cancelled''\<rparr>,
           new_appointment 6 request_0930]"
  "apply_operation (UpdateStatus ''apt-5'' ''Scheduled'')
       [(new_appointment 5 request_0930)\<lparr>status := ''Cancelled''\<rparr>,
        new_appointment 6 request_0930] =
     Some [(new_appointment 5 request_0930)\<lparr>status := ''Scheduled''\<rparr>,
           new_appointment 6 request_0930]"
     apply (simp add: createAppointment_def morning_requests_pass)
    apply (simp add: updateAppointmentStatus_def decimal_eval)
   apply (simp add: createAppointment_def morning_requests_pass same_slot_owner_def)
  apply (simp add: updateAppointmentStatus_def decimal_eval)
  done

lemma request_2330_passes: "check_required request_2330 required = None"
  by (simp add: request_2330_def form_payload_passes)

lemma midnight_other_date:
  "\<not> same_slot_owner request_midnight (new_appointment 5 request_2330)"
  by (simp add: same_slot_owner_def request_2330_def request_midnight_def str_of_def)

lemma overnight_steps:
  "apply_operation (Create 5 request_2330) [] = Some [new_appointment 5 request_2330]"
  "apply_operation (Create 6 request_midnight) [new_appointment 5 request_2330] =
     Some [new_appointment 5 request_2330, new_appointment 6 request_midnight]"
   apply (simp add: createAppointment_def request_2330_passes)
  apply (simp add: createAppointment_def overnight_facts midnight_other_date)
  done

lemma double_booked_examples:
  "double_booked (new_appointment 5 request_2330) (new_appointment 6 request_midnight)"
  "double_booked ((new_appointment 5 request_0930)\<lparr>status := ''Scheduled''\<rparr>)
     (new_appointment 6 request_0930)"
   apply (simp add: double_booked_def active_status_def status_or_default_def falsy_str_def
      overlaps_def start_of_def end_of_def request_2330_def request_midnight_def
      str_of_def num_of_def date_eval)
  apply (simp add: double_booked_def active_status_def status_or_default_def falsy_str_def
      overlaps_def start_of_def end_of_def request_0930_def str_of_def num_of_def date_eval)
  done

theorem double_booking_reachable:
  "no_double_booking [] \<and>
   run [Create 5 request_2330, Create 6 request_midnight] [] =
     Some [new_appointment 5 request_2330, new_appointment 6 request_midnight] \<and>
   \<not> no_double_booking [new_appointment 5 request_2330, new_appointment 6 request_midnight] \<and>
   run [Create 5 request_0930, UpdateStatus ''apt-5'' ''Cancelled'', Create 6 request_0930,
        UpdateStatus ''apt-5'' ''Scheduled''] [] =
     Some [(new_appointment 5 request_0930)\<lparr>status := ''Scheduled''\<rparr>,
           new_appointment 6 request_0930] \<and>
   \<not> no_double_booking [(new_appointment 5 request_0930)\<lparr>status := ''Scheduled''\<rparr>,
                         new_appointment 6 request_0930]"
proof (intro conjI)
  show "no_double_booking []"
    by (simp add: no_double_booking_def)
  show "run [Create 5 request_2330, Create 6 request_midnight] [] =
     Some [new_appointment 5 request_2330, new_appointment 6 request_midnight]"
    by (simp only: run.simps overnight_steps option.case)
  show "\<not> no_double_booking [new_appointment 5 request_2330, new_appointment 6 request_midnight]"
    by (simp add: no_double_booking_def double_booked_examples del: new_appointment_sel)
  show "run [Create 5 request_0930, UpdateStatus ''apt-5'' ''Cancelled'', Create 6 request_0930,
        UpdateStatus ''apt-5'' ''Scheduled''] [] =
     Some [(new_appointment 5 request_0930)\<lparr>status := ''Scheduled''\<rparr>,
           new_appointment 6 request_0930]"
    by (simp only: run.simps reactivation_steps option.case)
  show "\<not> no_double_booking [(new_appointment 5 request_0930)\<lparr>status := ''Scheduled''\<rparr>,
                         new_appointment 6 request_0930]"
    by (simp add: no_double_booking_def double_booked_examples del: new_appointment_sel)
qed

end
